theory Spec2Isabelle
  imports
    Complex_Main
    "HOL-Library.Char_ord"
    "HOL-Library.List_Lexorder"
    "HOL-Library.Product_Lexorder"
    "HOL-Library.Multiset"
begin

section \<open>Data model\<close>

text \<open>
  The retrieval pipeline of the repository passes search results around as Python
  dictionaries. A result is modelled as a record with one field per dictionary key.
  A key that the code reads with \<^verbatim>\<open>.get\<close> may be absent, so its field is an
  option and \<open>None\<close> stands for the absent key (for \<^verbatim>\<open>page_number\<close> also for
  the value \<^verbatim>\<open>None\<close>, which ingestion stores for images without a page); a key
  that is present holds a value of the type ingestion stores for it.
  \<^verbatim>\<open>confidence\<close> is set for every result by \<^verbatim>\<open>retrieve_context\<close> and is
  indexed directly by \<^verbatim>\<open>hybrid_search\<close>; it is a plain field.

  Python floats are modelled as real numbers, Python strings as lists of 8-bit
  characters; character classes (\<^verbatim>\<open>\w\<close>, \<^verbatim>\<open>\d\<close>, whitespace,
  \<^verbatim>\<open>lower\<close>) are those of Python on ASCII text.
\<close>

record result =
  chunk_id :: "string option"
  document_id :: "string option"
  document_name :: "string option"
  chunk_type :: "string option"
  content :: "string option"
  page_number :: "int option"
  confidence :: real
  image_path :: "string option"
  language :: "string option"

text \<open>\<^verbatim>\<open>d.get(key, default)\<close> on a field.\<close>

definition get_or :: "'a \<Rightarrow> 'a option \<Rightarrow> 'a" where
  "get_or d v = (case v of None \<Rightarrow> d | Some x \<Rightarrow> x)"

text \<open>The pydantic model \<^verbatim>\<open>Citation\<close> of \<^verbatim>\<open>app/api/models.py\<close>.\<close>

record citation =
  cit_document_id :: string
  cit_document_name :: string
  cit_text :: "string option"
  cit_image_url :: "string option"
  cit_page_number :: "int option"
  cit_confidence :: real

section \<open>Citation extraction (\<^verbatim>\<open>app/core/llm.py\<close>)\<close>

definition is_digit :: "char \<Rightarrow> bool" where
  "is_digit c = (CHR ''0'' \<le> c \<and> c \<le> CHR ''9'')"

text \<open>
  One attempt of the pattern \<^verbatim>\<open>\[DOC_(\d+)\]\<close> at the head of a string: the
  captured digits and the text after the closing bracket. The digits are matched
  greedily; giving digits back cannot help, since the character after a shorter run
  is a digit and not the bracket.
\<close>

definition match_doc :: "string \<Rightarrow> (string \<times> string) option" where
  "match_doc s =
     (if take 5 s = ''[DOC_'' then
        (let ds = takeWhile is_digit (drop 5 s); r = dropWhile is_digit (drop 5 s) in
         (case r of
            [] \<Rightarrow> None
          | c # rest \<Rightarrow> if ds \<noteq> [] \<and> c = CHR '']'' then Some (ds, rest) else None))
      else None)"

lemma match_doc_shorter: "match_doc s = Some (ds, rest) \<Longrightarrow> length rest < length s"
proof -
  assume a: "match_doc s = Some (ds, rest)"
  then obtain c where r: "dropWhile is_digit (drop 5 s) = c # rest"
    by (auto simp: match_doc_def Let_def split: if_splits list.splits)
  have "length (dropWhile is_digit (drop 5 s)) \<le> length (drop 5 s)"
    by (rule length_dropWhile_le)
  with r show ?thesis by simp
qed

text \<open>
  \<^verbatim>\<open>re.findall(r'\[DOC_(\d+)\]', response)\<close>: the captured groups of the leftmost
  non-overlapping matches, scanning from the left.
\<close>

function findall_doc :: "string \<Rightarrow> string list" where
  "findall_doc [] = []"
| "findall_doc (c # cs) =
     (case match_doc (c # cs) of
        Some (ds, rest) \<Rightarrow> ds # findall_doc rest
      | None \<Rightarrow> findall_doc cs)"
  by pat_completeness auto
termination
  by (relation "measure length") (auto dest: match_doc_shorter)

text \<open>
  \<^verbatim>\<open>int(doc_index)\<close> on a captured group: the value of a string of decimal
  digits. The pattern captures nothing else; \<open>None\<close> stands for the
  \<^verbatim>\<open>ValueError\<close> that the handler of the loop catches.
\<close>

definition digit_val :: "char \<Rightarrow> int" where
  "digit_val c = int (of_char c) - 48"

definition py_int :: "string \<Rightarrow> int option" where
  "py_int s =
     (if s \<noteq> [] \<and> list_all is_digit s
      then Some (foldl (\<lambda>n c. 10 * n + digit_val c) 0 s) else None)"

text \<open>The \<^verbatim>\<open>Citation(...)\<close> built from a result, the same in the loop and in the fallback.\<close>

definition make_citation :: "result \<Rightarrow> citation" where
  "make_citation item =
     \<lparr> cit_document_id = get_or '''' (document_id item),
       cit_document_name = get_or ''Unknown Document'' (document_name item),
       cit_text = Some (get_or '''' (content item)),
       cit_image_url = (if chunk_type item = Some ''image'' then image_path item else None),
       cit_page_number = page_number item,
       cit_confidence = confidence item \<rparr>"

definition same_evidence :: "citation \<Rightarrow> citation \<Rightarrow> bool" where
  "same_evidence c citation =
     (cit_document_id c = cit_document_id citation \<and> cit_text c = cit_text citation)"

text \<open>
  The loop over the markers. \<^verbatim>\<open>except (ValueError, IndexError): continue\<close> is the
  \<open>None\<close> branch; the index is read only inside the bounds check.
\<close>

fun add_citations :: "result list \<Rightarrow> citation list \<Rightarrow> string list \<Rightarrow> citation list" where
  "add_citations context citations [] = citations"
| "add_citations context citations (doc_index # ms) =
     (case py_int doc_index of
        None \<Rightarrow> add_citations context citations ms
      | Some n \<Rightarrow>
          (let doc_idx = n - 1 in
           if 0 \<le> doc_idx \<and> doc_idx < int (length context) then
             (let citation = make_citation (context ! nat doc_idx) in
              if \<not> list_ex (\<lambda>c. same_evidence c citation) citations
              then add_citations context (citations @ [citation]) ms
              else add_citations context citations ms)
           else add_citations context citations ms))"

text \<open>
  The block after the loop: when no citation was found and there is context, the top
  result is cited.
\<close>

definition with_fallback :: "result list \<Rightarrow> citation list \<Rightarrow> citation list" where
  "with_fallback context citations =
     (case context of
        [] \<Rightarrow> citations
      | top_item # _ \<Rightarrow>
          if citations = [] then citations @ [make_citation top_item] else citations)"

text \<open>
  \<^verbatim>\<open>extract_citations\<close>. The dictionary \<^verbatim>\<open>doc_map\<close> of the source is built and
  never read; it is left out.
\<close>

definition extract_citations :: "string \<Rightarrow> result list \<Rightarrow> string \<times> citation list" where
  "extract_citations response context =
     (response, with_fallback context (add_citations context [] (findall_doc response)))"

text \<open>A marker is resolvable when its one-based index points into the result list.\<close>

definition resolvable :: "result list \<Rightarrow> string \<Rightarrow> bool" where
  "resolvable context doc_index =
     (case py_int doc_index of
        None \<Rightarrow> False
      | Some n \<Rightarrow> 0 \<le> n - 1 \<and> n - 1 < int (length context))"

text \<open>The citation a marker resolves to, if any.\<close>

definition resolve :: "result list \<Rightarrow> string \<Rightarrow> citation option" where
  "resolve context doc_index =
     (case py_int doc_index of
        None \<Rightarrow> None
      | Some n \<Rightarrow>
          if 0 \<le> n - 1 \<and> n - 1 < int (length context)
          then Some (make_citation (context ! nat (n - 1))) else None)"

text \<open>
  Following the spec's words (``deduplicate by (document_id, text), preserving first-seen
  order''): a citation is kept unless one with the same document id and text was seen.
\<close>

fun first_seen :: "citation list \<Rightarrow> citation list \<Rightarrow> citation list" where
  "first_seen seen [] = []"
| "first_seen seen (c # cs) =
     (if list_ex (\<lambda>d. same_evidence d c) seen then first_seen seen cs
      else c # first_seen (seen @ [c]) cs)"

definition evidence_key :: "citation \<Rightarrow> string \<times> string option" where
  "evidence_key c = (cit_document_id c, cit_text c)"

subsection \<open>Example results\<close>

definition text_result :: "string \<Rightarrow> string \<Rightarrow> string \<Rightarrow> int option \<Rightarrow> real \<Rightarrow> result" where
  "text_result doc cid txt page conf =
     \<lparr> chunk_id = Some cid, document_id = Some doc, document_name = Some (doc @ ''.pdf''),
       chunk_type = Some ''text'', content = Some txt, page_number = page,
       confidence = conf, image_path = None, language = None \<rparr>"

definition image_result :: "string \<Rightarrow> string \<Rightarrow> string \<Rightarrow> string \<Rightarrow> real \<Rightarrow> result" where
  "image_result doc cid txt path conf =
     \<lparr> chunk_id = Some cid, document_id = Some doc, document_name = Some (doc @ ''.pdf''),
       chunk_type = Some ''image'', content = Some txt, page_number = None,
       confidence = conf, image_path = Some path, language = None \<rparr>"

definition five_items :: "result list" where
  "five_items =
     [image_result ''d1'' ''d1_image_0'' [] ''d1/image_0.png'' 0.9,
      text_result ''d1'' ''d1_text_0'' ''alpha'' (Some 1) 0.8,
      image_result ''d1'' ''d1_image_1'' [] ''d1/image_1.png'' 0.7,
      text_result ''d2'' ''d2_text_0'' ''beta'' (Some 1) 0.6,
      text_result ''d2'' ''d2_text_1'' ''gamma'' (Some 2) 0.5]"

definition three_items :: "result list" where
  "three_items =
     [text_result ''d1'' ''d1_text_0'' ''alpha'' (Some 1) 0.9,
      text_result ''d1'' ''d1_text_1'' ''beta'' (Some 1) 0.8,
      text_result ''d2'' ''d2_text_0'' ''gamma'' None 0.4]"

section \<open>Hybrid ranking (\<^verbatim>\<open>app/core/retriever.py\<close>, \<^verbatim>\<open>app/db/vector_store.py\<close>)\<close>

text \<open>\<^verbatim>\<open>str.lower\<close> on ASCII: the letters A to Z move up by 32.\<close>

definition lower_char :: "char \<Rightarrow> char" where
  "lower_char c =
     (if CHR ''A'' \<le> c \<and> c \<le> CHR ''Z'' then char_of (of_char c + (32::nat)) else c)"

definition lower :: "string \<Rightarrow> string" where
  "lower s = map lower_char s"

text \<open>The class \<^verbatim>\<open>\w\<close> on ASCII.\<close>

definition is_word_char :: "char \<Rightarrow> bool" where
  "is_word_char c =
     ((CHR ''a'' \<le> c \<and> c \<le> CHR ''z'') \<or> (CHR ''A'' \<le> c \<and> c \<le> CHR ''Z'')
      \<or> (CHR ''0'' \<le> c \<and> c \<le> CHR ''9'') \<or> c = CHR ''_'')"

text \<open>
  \<^verbatim>\<open>re.findall(r'\b\w{4,}\b', s)\<close>, scanning from the left. \<open>prev\<close> tells whether
  the character before the current position is a word character. A match starts where
  \<^verbatim>\<open>\b\<close> holds before a word character, that is after a non-word character
  or at the start; \<^verbatim>\<open>\w{4,}\<close> is greedy and takes the whole run, after which
  \<^verbatim>\<open>\b\<close> holds; the scan goes on after the match. Where no match starts the
  scan moves one character on.
\<close>

function findall_words :: "bool \<Rightarrow> string \<Rightarrow> string list" where
  "findall_words prev [] = []"
| "findall_words prev (c # cs) =
     (let run = takeWhile is_word_char (c # cs) in
      if \<not> prev \<and> 4 \<le> length run
      then run # findall_words True (dropWhile is_word_char (c # cs))
      else findall_words (is_word_char c) cs)"
  by pat_completeness auto
termination
proof (relation "measure (\<lambda>(prev, s). length s)")
  fix prev :: bool and c :: char and cs run
  assume "run = takeWhile is_word_char (c # cs)" and "\<not> prev \<and> 4 \<le> length run"
  then have "is_word_char c" by (auto split: if_splits)
  then have "length (dropWhile is_word_char (c # cs)) \<le> length cs"
    by (simp add: length_dropWhile_le)
  then show "((True, dropWhile is_word_char (c # cs)), prev, c # cs)
      \<in> measure (\<lambda>(prev, s). length s)" by simp
qed auto

text \<open>\<^verbatim>\<open>keywords = re.findall(r'\b\w{4,}\b', query.lower())\<close>\<close>

definition query_keywords :: "string \<Rightarrow> string list" where
  "query_keywords query = findall_words False (lower query)"

text \<open>\<^verbatim>\<open>keyword in content\<close>: the substring test.\<close>

fun py_in :: "string \<Rightarrow> string \<Rightarrow> bool" where
  "py_in k [] = (k = [])"
| "py_in k (c # cs) = (take (length k) (c # cs) = k \<or> py_in k cs)"

text \<open>\<^verbatim>\<open>sum(1 for keyword in keywords if keyword in content)\<close>\<close>

definition keyword_matches :: "string list \<Rightarrow> result \<Rightarrow> nat" where
  "keyword_matches keywords result =
     length (filter (\<lambda>keyword. py_in keyword (lower (get_or [] (content result)))) keywords)"

text \<open>The body of the loop over the results: the result with its confidence adjusted.\<close>

definition boost_result :: "string list \<Rightarrow> result \<Rightarrow> result" where
  "boost_result keywords result =
     (if 0 < keyword_matches keywords result then
        (let keyword_boost = min 0.2 (0.05 * real (keyword_matches keywords result)) in
         result\<lparr>confidence := min 0.99 (confidence result + keyword_boost)\<rparr>)
      else result)"

text \<open>
  \<^verbatim>\<open>hybrid_search\<close>. The source updates the results in place and sorts the list
  in place with \<^verbatim>\<open>sort(key=..., reverse=True)\<close>, which is stable: results of
  equal confidence keep their order. The returned list is the new state of the list.
\<close>

definition hybrid_search :: "string \<Rightarrow> result list \<Rightarrow> result list" where
  "hybrid_search query vector_results =
     (let keywords = query_keywords query in
      if keywords = [] then vector_results
      else sort_key (\<lambda>x. - confidence x) (map (boost_result keywords) vector_results))"

text \<open>The confidence \<^verbatim>\<open>search_vectors\<close> derives from a distance.\<close>

definition distance_to_confidence :: "real \<Rightarrow> real" where
  "distance_to_confidence distance = 1.0 - min (distance / 2.0) 0.95"





text \<open>
  Following the spec's words: the ``count of case-folded substring occurrences of each
  query keyword within the chunk's content'', an occurrence being a position of the
  content where the keyword starts.
\<close>

fun count_occurrences :: "string \<Rightarrow> string \<Rightarrow> nat" where
  "count_occurrences k [] = 0"
| "count_occurrences k (c # cs) =
     (if take (length k) (c # cs) = k then 1 else 0) + count_occurrences k cs"

definition spec_match_count :: "string list \<Rightarrow> result \<Rightarrow> nat" where
  "spec_match_count keywords result =
     sum_list (map (\<lambda>keyword. count_occurrences keyword (lower (get_or [] (content result)))) keywords)"

section \<open>Context assembly (\<^verbatim>\<open>app/core/retriever.py\<close>)\<close>

text \<open>The newline, as a string.\<close>

definition NL :: string where
  "NL = [CHR 0x0A]"











text \<open>\<^verbatim>\<open>sep.join(parts)\<close>\<close>

fun join :: "string \<Rightarrow> string list \<Rightarrow> string" where
  "join sep [] = []"
| "join sep [p] = p"
| "join sep (p # q # ps) = p @ sep @ join sep (q # ps)"






section \<open>Segmentation (\<^verbatim>\<open>app/core/text_processor.py\<close>, \<^verbatim>\<open>app/config.py\<close>)\<close>











section \<open>Embedding dispatch (\<^verbatim>\<open>app/core/embedder.py\<close>)\<close>

text \<open>
  The embedding models, the file system and the text extraction from images are outside
  the repository. They are parameters of the model, collected in an environment; a call
  that raises an exception returns \<open>Inl\<close>. A vector is a list of numbers.
  \<^verbatim>\<open>clip_image_features\<close> stands for the body of the CLIP branch (opening the image,
  the model, the normalisation), \<^verbatim>\<open>extract_text_from_image\<close> for the import of that
  function and its call.
\<close>

datatype embed_error = EmbedError

type_synonym vector = "real list"

record embed_env =
  encode :: "string \<Rightarrow> embed_error + vector"
  sentence_embedding_dimension :: nat
  has_clip :: bool
  path_exists :: "string \<Rightarrow> bool"
  clip_image_features :: "string \<Rightarrow> embed_error + vector"
  extract_text_from_image :: "string \<Rightarrow> embed_error + string"

text \<open>\<^verbatim>\<open>np.zeros(n)\<close>\<close>

definition zeros :: "nat \<Rightarrow> vector" where
  "zeros n = replicate n 0"

text \<open>\<^verbatim>\<open>embed_text\<close>: no exception handler; what \<^verbatim>\<open>encode\<close> raises reaches the caller.\<close>

definition embed_text :: "embed_env \<Rightarrow> string \<Rightarrow> embed_error + vector" where
  "embed_text env text =
     (if text = [] then Inr (zeros (sentence_embedding_dimension env))
      else encode env text)"

text \<open>
  \<^verbatim>\<open>embed_image\<close>: the \<^verbatim>\<open>try\<close> block around both strategies turns every
  exception into a zero vector.
\<close>

definition embed_image :: "embed_env \<Rightarrow> string \<Rightarrow> embed_error + vector" where
  "embed_image env path =
     (if \<not> path_exists env path then Inr (zeros 512)
      else
        (case (if has_clip env then clip_image_features env path
               else (case extract_text_from_image env path of
                       Inl e \<Rightarrow> Inl e
                     | Inr image_text \<Rightarrow>
                         if image_text \<noteq> [] then embed_text env image_text
                         else Inr (zeros (sentence_embedding_dimension env))))
         of
           Inl e \<Rightarrow> Inr (zeros (if has_clip env then 512 else sentence_embedding_dimension env))
         | Inr embedding \<Rightarrow> Inr embedding))"

text \<open>\<^verbatim>\<open>embed_code\<close>, on the snippet, the language and the function names.\<close>

definition embed_code :: "embed_env \<Rightarrow> string \<Rightarrow> string \<Rightarrow> string list \<Rightarrow> embed_error + vector" where
  "embed_code env snippet lang functions =
     (if snippet = [] then Inr (zeros (sentence_embedding_dimension env))
      else embed_text env
             (''Language: '' @ lang @ NL
              @ (if functions \<noteq> [] then ''Functions: '' @ join '', '' functions @ NL @ NL else [])
              @ snippet))"

text \<open>\<^verbatim>\<open>embed_chunk\<close>: the dispatch on the chunk type; a chunk has the keys of a result.\<close>

definition embed_chunk :: "embed_env \<Rightarrow> result \<Rightarrow> embed_error + vector" where
  "embed_chunk env chunk =
     (let chunk_type = get_or ''text'' (chunk_type chunk) in
      if chunk_type = ''text'' then embed_text env (get_or [] (content chunk))
      else if chunk_type = ''image'' then embed_image env (get_or [] (image_path chunk))
      else if chunk_type = ''code'' then
        embed_code env (get_or [] (content chunk)) (get_or ''unknown'' (language chunk)) []
      else embed_text env (get_or [] (content chunk)))"

text \<open>An environment in which the text model and the CLIP model raise.\<close>

definition failing_env :: embed_env where
  "failing_env =
     \<lparr> encode = (\<lambda>text. Inl EmbedError), sentence_embedding_dimension = 3, has_clip = False,
       path_exists = (\<lambda>path. True), clip_image_features = (\<lambda>path. Inl EmbedError),
       extract_text_from_image = (\<lambda>path. Inr ''scanned words'') \<rparr>"

section \<open>Properties of citation extraction\<close>

lemma add_citations_skip:
  "\<not> resolvable context m \<Longrightarrow> add_citations context cs (m # ms) = add_citations context cs ms"
  by (auto simp: resolvable_def Let_def split: option.splits)

lemma add_citations_append:
  "add_citations context cs (ms @ ms') = add_citations context (add_citations context cs ms) ms'"
  by (induction ms arbitrary: cs) (simp_all add: Let_def split: option.splits)

lemma add_citations_filter:
  "add_citations context cs (filter (resolvable context) ms) = add_citations context cs ms"
  by (induction ms arbitrary: cs) (auto simp: resolvable_def Let_def split: option.splits)


lemma add_citations_first_seen:
  "add_citations context cs ms = cs @ first_seen cs (List.map_filter (resolve context) ms)"
  by (induction ms arbitrary: cs)
     (auto simp: resolve_def List.map_filter_simps Let_def split: option.splits)

lemma match_doc_digits:
  "match_doc s = Some (ds, rest) \<Longrightarrow> ds \<noteq> [] \<and> list_all is_digit ds"
  by (auto simp: match_doc_def Let_def list_all_iff split: if_splits list.splits dest: set_takeWhileD)

lemma findall_doc_digits:
  "m \<in> set (findall_doc s) \<Longrightarrow> m \<noteq> [] \<and> list_all is_digit m"
  by (induction s rule: findall_doc.induct) (auto split: option.splits dest: match_doc_digits)


lemma match_doc_non_numeric:
  assumes "idx = [] \<or> \<not> list_all is_digit idx" and "CHR '']'' \<notin> set idx"
  shows "match_doc (''[DOC_'' @ idx @ CHR '']'' # s) = None"
proof (cases "takeWhile is_digit idx = []")
  case True
  have nd: "\<not> is_digit (CHR '']'')" by (simp add: is_digit_def)
  have "takeWhile is_digit (idx @ CHR '']'' # s) = []"
    using True nd by (cases idx) (auto split: if_splits)
  then show ?thesis by (simp add: match_doc_def Let_def split: list.splits)
next
  case False
  then have "idx \<noteq> []" by auto
  with assms(1) have "\<not> list_all is_digit idx" by simp
  then obtain x where x: "x \<in> set idx" "\<not> is_digit x" by (auto simp: list_all_iff)
  then have dw: "dropWhile is_digit idx \<noteq> []" by (auto simp: dropWhile_eq_Nil_conv)
  then obtain y ys where y: "dropWhile is_digit idx = y # ys" by (cases "dropWhile is_digit idx") auto
  have "y \<in> set idx" using y by (metis list.set_intros(1) set_dropWhileD)
  with assms(2) have ny: "y \<noteq> CHR '']''" by auto
  have "dropWhile is_digit (idx @ CHR '']'' # s) = dropWhile is_digit idx @ CHR '']'' # s"
    using x by (simp add: dropWhile_append1)
  with y ny show ?thesis by (simp add: match_doc_def Let_def)
qed

lemma list_ex_same_evidence:
  "list_ex (\<lambda>d. same_evidence d c) seen \<longleftrightarrow> evidence_key c \<in> evidence_key ` set seen"
  by (induction seen) (auto simp: same_evidence_def evidence_key_def)

lemma first_seen_keys:
  "distinct (map evidence_key (first_seen seen xs))
   \<and> evidence_key ` set (first_seen seen xs) \<inter> evidence_key ` set seen = {}"
proof (induction xs arbitrary: seen)
  case Nil
  show ?case by simp
next
  case (Cons c cs)
  show ?case
  proof (cases "list_ex (\<lambda>d. same_evidence d c) seen")
    case True
    with Cons [of seen] show ?thesis by simp
  next
    case False
    then have k: "evidence_key c \<notin> evidence_key ` set seen"
      by (simp add: list_ex_same_evidence)
    from Cons [of "seen @ [c]"] False k show ?thesis by auto
  qed
qed

lemma with_fallback_distinct:
  "distinct (map evidence_key cs) \<Longrightarrow> distinct (map evidence_key (with_fallback context cs))"
  by (auto simp: with_fallback_def split: list.splits)




text \<open>
  Claim C6. A marker whose zero-based index is out of range for the result list
  contributes no citation: wherever it stands among the markers, and whatever
  citations were collected before it, the loop returns what it returns without it, so
  the citations of an answer are those of its resolvable markers alone. An index that
  is not numeric is never captured by the pattern (and would be skipped by the
  \<^verbatim>\<open>ValueError\<close> handler). No error leaves \<^const>\<open>extract_citations\<close>: the only
  failing operations of the loop are the conversion and the indexing, the first is
  caught and the second is guarded, so the model is a total function into plain results.
\<close>

theorem unresolvable_marker_discarded:
  "(\<not> resolvable context m \<longrightarrow>
      add_citations context citations (ms @ m # ms') = add_citations context citations (ms @ ms'))
   \<and> extract_citations response context =
       (response, with_fallback context
          (add_citations context [] (filter (resolvable context) (findall_doc response))))
   \<and> ((idx = [] \<or> \<not> list_all is_digit idx) \<and> CHR '']'' \<notin> set idx \<longrightarrow>
        match_doc (''[DOC_'' @ idx @ CHR '']'' # s) = None)"
proof (intro conjI impI)
  assume "\<not> resolvable context m"
  then show "add_citations context citations (ms @ m # ms') = add_citations context citations (ms @ ms')"
    by (simp add: add_citations_append add_citations_skip del: add_citations.simps)
next
  show "extract_citations response context =
       (response, with_fallback context
          (add_citations context [] (filter (resolvable context) (findall_doc response))))"
    by (simp add: extract_citations_def add_citations_filter)
next
  assume h: "(idx = [] \<or> \<not> list_all is_digit idx) \<and> CHR '']'' \<notin> set idx"
  from h have a: "idx = [] \<or> \<not> list_all is_digit idx" ..
  from h have b: "CHR '']'' \<notin> set idx" ..
  show "match_doc (''[DOC_'' @ idx @ CHR '']'' # s) = None"
    by (rule match_doc_non_numeric [OF a b])
qed

theorem unresolvable_marker_discarded_witness:
  "\<not> resolvable three_items ''99''
   \<and> add_citations three_items [] ([''2''] @ ''99'' # [''3'']) = add_citations three_items [] ([''2''] @ [''3''])
   \<and> findall_doc ''[DOC_2] [DOC_99] [DOC_abc] [DOC_3]'' = [''2'', ''99'', ''3'']
   \<and> map cit_text (snd (extract_citations ''[DOC_2] [DOC_99] [DOC_abc] [DOC_3]'' three_items))
       = [Some ''beta'', Some ''gamma'']
   \<and> match_doc (''[DOC_'' @ ''abc'' @ CHR '']'' # '' [DOC_3]'') = None"
proof -
  have r: "\<not> resolvable three_items ''99''"
    by (simp add: resolvable_def py_int_def is_digit_def digit_val_def three_items_def)
  have nn: "(''abc'' = [] \<or> \<not> list_all is_digit ''abc'') \<and> CHR '']'' \<notin> set ''abc''"
    by (simp add: is_digit_def)
  have f: "findall_doc ''[DOC_2] [DOC_99] [DOC_abc] [DOC_3]'' = [''2'', ''99'', ''3'']"
    by (simp add: match_doc_def is_digit_def)
  have flt: "filter (resolvable three_items) [''2'', ''99'', ''3''] = [''2'', ''3'']"
    by (simp add: resolvable_def py_int_def is_digit_def digit_val_def three_items_def)
  note t = unresolvable_marker_discarded [of three_items "''99''" "[]" "[''2'']" "[''3'']"
      "''[DOC_2] [DOC_99] [DOC_abc] [DOC_3]''" "''abc''" "'' [DOC_3]''"]
  from t r have a: "add_citations three_items [] ([''2''] @ ''99'' # [''3''])
      = add_citations three_items [] ([''2''] @ [''3''])" by blast
  from t have "extract_citations ''[DOC_2] [DOC_99] [DOC_abc] [DOC_3]'' three_items =
       (''[DOC_2] [DOC_99] [DOC_abc] [DOC_3]'', with_fallback three_items
          (add_citations three_items [] (filter (resolvable three_items)
             (findall_doc ''[DOC_2] [DOC_99] [DOC_abc] [DOC_3]''))))" by blast
  then have b: "map cit_text (snd (extract_citations ''[DOC_2] [DOC_99] [DOC_abc] [DOC_3]'' three_items))
       = [Some ''beta'', Some ''gamma'']"
    unfolding f flt
    by (simp add: with_fallback_def three_items_def py_int_def is_digit_def digit_val_def
        make_citation_def text_result_def get_or_def same_evidence_def)
  from t have "(''abc'' = [] \<or> \<not> list_all is_digit ''abc'') \<and> CHR '']'' \<notin> set ''abc'' \<longrightarrow>
      match_doc (''[DOC_'' @ ''abc'' @ CHR '']'' # '' [DOC_3]'') = None" by (elim conjE)
  with nn have c: "match_doc (''[DOC_'' @ ''abc'' @ CHR '']'' # '' [DOC_3]'') = None" by (rule rev_mp)
  from r a f b c show ?thesis by (intro conjI)
qed

text \<open>
  Claim C9, as amended. The citations are the citations of the resolvable markers
  in first-seen order, deduplicated by the (document id, text) pair, so no two of them
  share that pair. For an answer whose markers are \<^verbatim>\<open>[DOC_1]\<close> and
  \<^verbatim>\<open>[DOC_3]\<close>, against a list of five results whose items at index 0 and 2
  differ in document id or text, exactly two citations are produced, for index 0 and
  then index 2.
\<close>

theorem citations_first_seen_dedup:
  "snd (extract_citations response context) =
     with_fallback context (first_seen [] (List.map_filter (resolve context) (findall_doc response)))
   \<and> distinct (map evidence_key (snd (extract_citations response context)))
   \<and> (findall_doc response = [''1'', ''3''] \<and> length context = 5
        \<and> \<not> same_evidence (make_citation (context ! 0)) (make_citation (context ! 2))
      \<longrightarrow> snd (extract_citations response context)
            = [make_citation (context ! 0), make_citation (context ! 2)])"
proof (intro conjI impI)
  show eq: "snd (extract_citations response context) =
     with_fallback context (first_seen [] (List.map_filter (resolve context) (findall_doc response)))"
    by (simp add: extract_citations_def add_citations_first_seen)
  show "distinct (map evidence_key (snd (extract_citations response context)))"
    unfolding eq using first_seen_keys [of "[]"] by (simp add: with_fallback_distinct)
next
  assume h: "findall_doc response = [''1'', ''3''] \<and> length context = 5
        \<and> \<not> same_evidence (make_citation (context ! 0)) (make_citation (context ! 2))"
  then obtain a b c d e where ctx: "context = [a, b, c, d, e]"
    by (auto simp: length_Suc_conv eval_nat_numeral)
  from h ctx have ne: "\<not> same_evidence (make_citation a) (make_citation c)" by simp
  have p1: "py_int ''1'' = Some 1" and p3: "py_int ''3'' = Some 3"
    by (simp_all add: py_int_def is_digit_def digit_val_def)
  from h have f: "findall_doc response = [''1'', ''3'']" by simp
  show "snd (extract_citations response context)
            = [make_citation (context ! 0), make_citation (context ! 2)]"
    using ne by (simp add: extract_citations_def f ctx p1 p3 with_fallback_def)
qed

theorem citations_first_seen_dedup_witness:
  "findall_doc ''See [DOC_1] and [DOC_3].'' = [''1'', ''3'']
   \<and> length (tl five_items @ [hd five_items]) = 5
   \<and> \<not> same_evidence (make_citation ((tl five_items @ [hd five_items]) ! 0))
                      (make_citation ((tl five_items @ [hd five_items]) ! 2))
   \<and> map cit_text (snd (extract_citations ''See [DOC_1] and [DOC_3].'' (tl five_items @ [hd five_items])))
       = [Some ''alpha'', Some ''beta'']"
proof -
  let ?ctx = "tl five_items @ [hd five_items]"
  have f: "findall_doc ''See [DOC_1] and [DOC_3].'' = [''1'', ''3'']"
    by (simp add: match_doc_def is_digit_def)
  have l: "length ?ctx = 5" by (simp add: five_items_def)
  have ne: "\<not> same_evidence (make_citation (?ctx ! 0)) (make_citation (?ctx ! 2))"
    by (simp add: five_items_def same_evidence_def make_citation_def text_result_def
        image_result_def get_or_def)
  from citations_first_seen_dedup [of "''See [DOC_1] and [DOC_3].''" ?ctx] f l ne
  have "snd (extract_citations ''See [DOC_1] and [DOC_3].'' ?ctx)
            = [make_citation (?ctx ! 0), make_citation (?ctx ! 2)]" by (elim conjE) simp
  then have "map cit_text (snd (extract_citations ''See [DOC_1] and [DOC_3].'' ?ctx))
       = [Some ''alpha'', Some ''beta'']"
    by (simp add: five_items_def make_citation_def text_result_def image_result_def get_or_def)
  with f l ne show ?thesis by (intro conjI)
qed

text \<open>
  Claim C9 as stated fails when the two cited results share document id and text: two
  images of one document without extracted text (content \<^verbatim>\<open>""\<close>) collapse into
  one citation.
\<close>

theorem citation_roundtrip_counterexample:
  "length five_items = 5
   \<and> findall_doc ''See [DOC_1] and [DOC_3].'' = [''1'', ''3'']
   \<and> snd (extract_citations ''See [DOC_1] and [DOC_3].'' five_items)
       = [\<lparr> cit_document_id = ''d1'', cit_document_name = ''d1.pdf'', cit_text = Some [],
            cit_image_url = Some ''d1/image_0.png'', cit_page_number = None,
            cit_confidence = 0.9 \<rparr>]"
  by (simp add: five_items_def extract_citations_def with_fallback_def match_doc_def is_digit_def
      py_int_def digit_val_def make_citation_def text_result_def image_result_def get_or_def
      same_evidence_def)


section \<open>Properties of hybrid ranking\<close>

lemma py_in_iff: "py_in k c \<longleftrightarrow> (\<exists>p s. c = p @ k @ s)"
proof (induction c)
  case Nil
  show ?case by auto
next
  case (Cons a c)
  show ?case
  proof
    assume "py_in k (a # c)"
    then consider "take (length k) (a # c) = k" | "py_in k c" by auto
    then show "\<exists>p s. a # c = p @ k @ s"
    proof cases
      case 1
      then have "a # c = [] @ k @ drop (length k) (a # c)"
        by (metis append_Nil append_take_drop_id)
      then show ?thesis by blast
    next
      case 2
      with Cons obtain p s where "c = p @ k @ s" by blast
      then have "a # c = (a # p) @ k @ s" by simp
      then show ?thesis by blast
    qed
  next
    assume "\<exists>p s. a # c = p @ k @ s"
    then obtain p s where ps: "a # c = p @ k @ s" by blast
    show "py_in k (a # c)"
    proof (cases p)
      case Nil
      with ps have "take (length k) (a # c) = k" by simp
      then show ?thesis by simp
    next
      case (Cons b p')
      with ps have "c = p' @ k @ s" by simp
      with Cons.IH show ?thesis by auto
    qed
  qed
qed



lemma mset_hybrid_search:
  "mset (hybrid_search query rs) = image_mset (boost_result (query_keywords query)) (mset rs)"
proof (cases "query_keywords query = []")
  case True
  then have "boost_result (query_keywords query) = (\<lambda>r. r)"
    by (auto simp: boost_result_def keyword_matches_def)
  with True show ?thesis by (simp add: hybrid_search_def)
next
  case False
  then show ?thesis by (simp add: hybrid_search_def)
qed

lemma boost_result_confidence:
  "confidence (boost_result ks r) =
     (if 0 < keyword_matches ks r
      then min 0.99 (confidence r + min 0.2 (0.05 * real (keyword_matches ks r)))
      else confidence r)"
  by (simp add: boost_result_def Let_def)

lemma boost_result_bounds:
  assumes "confidence r \<le> 0.99"
  shows "confidence r \<le> confidence (boost_result ks r) \<and> confidence (boost_result ks r) \<le> 0.99"
  using assms by (auto simp: boost_result_confidence min_def)

text \<open>
  Claim C1, as amended. Hybrid ranking returns the results, each with its confidence
  adjusted, in some order. The adjusted confidence of a result is
  \<open>min 0.99 (old + min 0.2 (0.05 * match_count))\<close> when \<open>match_count > 0\<close> and the old
  confidence otherwise, nothing else of the result changes, and \<open>match_count\<close> is the
  number of query keywords that occur at least once as a substring of the lower-cased
  content: each keyword counts once, however often it occurs.
\<close>

theorem keyword_boost_formula:
  "mset (hybrid_search query rs) = image_mset (boost_result (query_keywords query)) (mset rs)
   \<and> boost_result ks r =
       r\<lparr>confidence :=
           (if 0 < keyword_matches ks r
            then min 0.99 (confidence r + min 0.2 (0.05 * real (keyword_matches ks r)))
            else confidence r)\<rparr>
   \<and> keyword_matches ks r =
       length (filter (\<lambda>k. \<exists>p s. lower (get_or [] (content r)) = p @ k @ s) ks)"
  by (simp add: mset_hybrid_search boost_result_def Let_def keyword_matches_def py_in_iff)

text \<open>
  Claim C1 as stated counts occurrences. The content ``Data about data'' holds the
  keyword ``data'' twice: by the claim the confidence 0.5 becomes 0.6, the code makes
  it 0.55.
\<close>

theorem keyword_boost_counterexample:
  "query_keywords ''data'' = [''data'']
   \<and> map confidence
        (hybrid_search ''data'' [text_result ''d1'' ''d1_text_0'' ''Data about data'' (Some 1) 0.5])
       = [0.55]
   \<and> spec_match_count [''data''] (text_result ''d1'' ''d1_text_0'' ''Data about data'' (Some 1) 0.5) = 2
   \<and> min 0.99 (0.5 + min 0.2 (0.05 * real (spec_match_count [''data'']
         (text_result ''d1'' ''d1_text_0'' ''Data about data'' (Some 1) 0.5)))) = (0.6::real)"
proof -
  have k: "query_keywords ''data'' = [''data'']"
    by (simp add: query_keywords_def lower_def lower_char_def is_word_char_def)
  have l: "lower ''Data about data'' = ''data about data''"
    by (simp add: lower_def lower_char_def char_of_def bit_Suc_0_iff)
  have c: "spec_match_count [''data''] (text_result ''d1'' ''d1_text_0'' ''Data about data'' (Some 1) 0.5) = 2"
    by (simp add: spec_match_count_def text_result_def get_or_def l)
  have h: "map confidence
        (hybrid_search ''data'' [text_result ''d1'' ''d1_text_0'' ''Data about data'' (Some 1) 0.5])
       = [0.55]"
    by (simp add: hybrid_search_def k boost_result_def keyword_matches_def text_result_def get_or_def l)
  from k h c show ?thesis by simp
qed

text \<open>
  Claim C2, as amended. Hybrid ranking returns the results with adjusted confidences.
  For a result whose original confidence, derived from the vector distance as
  \<open>1 - min (distance / 2) 0.95\<close>, comes from a distance of at least 0.02 (so that it is
  at most 0.99), the adjusted confidence is at least the original one and at most
  0.99, and the original one is at least 0.05. A result that matches no keyword is
  left as it is.
\<close>

theorem boosted_confidence_bounds:
  "mset (hybrid_search query rs) = image_mset (boost_result (query_keywords query)) (mset rs)
   \<and> (confidence r = distance_to_confidence d \<and> 0.02 \<le> d \<longrightarrow>
        confidence r \<le> confidence (boost_result ks r)
        \<and> confidence (boost_result ks r) \<le> 0.99 \<and> 0.05 \<le> confidence r)
   \<and> (keyword_matches ks r = 0 \<longrightarrow> boost_result ks r = r)"
proof (intro conjI impI)
  show "mset (hybrid_search query rs) = image_mset (boost_result (query_keywords query)) (mset rs)"
    by (rule mset_hybrid_search)
next
  assume h: "confidence r = distance_to_confidence d \<and> 0.02 \<le> d"
  then have le: "confidence r \<le> 0.99" and ge: "0.05 \<le> confidence r"
    by (auto simp: distance_to_confidence_def min_def)
  from boost_result_bounds [OF le, of ks] ge
  show "confidence r \<le> confidence (boost_result ks r)"
    and "confidence (boost_result ks r) \<le> 0.99" and "0.05 \<le> confidence r" by auto
next
  assume "keyword_matches ks r = 0"
  then show "boost_result ks r = r" by (simp add: boost_result_def)
qed

theorem boosted_confidence_bounds_witness:
  "text_result ''d1'' ''d1_text_0'' ''Python tips'' (Some 1) (distance_to_confidence 0.4) = 
     text_result ''d1'' ''d1_text_0'' ''Python tips'' (Some 1) 0.8
   \<and> (0.02::real) \<le> 0.4
   \<and> confidence (boost_result [''python'']
        (text_result ''d1'' ''d1_text_0'' ''Python tips'' (Some 1) 0.8)) = 0.85
   \<and> boost_result [''rust'']
        (text_result ''d1'' ''d1_text_0'' ''Python tips'' (Some 1) 0.8)
       = text_result ''d1'' ''d1_text_0'' ''Python tips'' (Some 1) 0.8"
proof -
  let ?r = "text_result ''d1'' ''d1_text_0'' ''Python tips'' (Some 1) 0.8"
  have l: "lower ''Python tips'' = ''python tips''"
    by (simp add: lower_def lower_char_def char_of_def bit_Suc_0_iff)
  have a: "confidence ?r = distance_to_confidence 0.4 \<and> (0.02::real) \<le> 0.4"
    by (simp add: text_result_def distance_to_confidence_def)
  have z: "keyword_matches [''rust''] ?r = 0"
    by (simp add: keyword_matches_def text_result_def get_or_def l)
  have c: "confidence (boost_result [''python''] ?r) = 0.85"
    by (simp add: boost_result_def keyword_matches_def text_result_def get_or_def l)
  note t = boosted_confidence_bounds [of "''python''" "[?r]" ?r "0.4" "[''python'']"]
  from t a have "confidence ?r \<le> confidence (boost_result [''python''] ?r)
        \<and> confidence (boost_result [''python''] ?r) \<le> 0.99 \<and> 0.05 \<le> confidence ?r"
    by (elim conjE) simp
  note u = boosted_confidence_bounds [of "''rust''" "[?r]" ?r "0.4" "[''rust'']"]
  from u z have "boost_result [''rust''] ?r = ?r" by (elim conjE) simp
  with a c show ?thesis by (simp add: distance_to_confidence_def)
qed

text \<open>
  Claim C2 as stated fails at distance 0, where the original confidence is 1: a result
  that matches the keyword drops to 0.99, below its original confidence, and a result
  that does not match keeps 1, above 0.99 (and is now ranked first).
\<close>

theorem confidence_bounds_counterexample:
  "distance_to_confidence 0 = 1
   \<and> map confidence
       (hybrid_search ''python''
          [text_result ''d1'' ''d1_text_0'' ''Python tips'' (Some 1) (distance_to_confidence 0),
           text_result ''d1'' ''d1_text_1'' ''Unrelated'' (Some 1) (distance_to_confidence 0)])
      = [1, 0.99]
   \<and> map chunk_id
       (hybrid_search ''python''
          [text_result ''d1'' ''d1_text_0'' ''Python tips'' (Some 1) (distance_to_confidence 0),
           text_result ''d1'' ''d1_text_1'' ''Unrelated'' (Some 1) (distance_to_confidence 0)])
      = [Some ''d1_text_1'', Some ''d1_text_0'']"
proof -
  have k: "query_keywords ''python'' = [''python'']"
    by (simp add: query_keywords_def lower_def lower_char_def is_word_char_def)
  have l: "lower ''Python tips'' = ''python tips''" "lower ''Unrelated'' = ''unrelated''"
    by (simp_all add: lower_def lower_char_def char_of_def bit_Suc_0_iff)
  have d: "distance_to_confidence 0 = 1" by (simp add: distance_to_confidence_def)
  show ?thesis
    by (simp add: d hybrid_search_def k boost_result_def keyword_matches_def text_result_def
        get_or_def l)
qed

theorem keyword_boost_formula_witness:
  "map confidence
     (hybrid_search ''Python programming''
        [text_result ''doc1'' ''doc1_text_2'' ''JavaScript is used for web development.'' None 0.7,
         text_result ''doc1'' ''doc1_text_1'' ''Python is a programming language.'' None 0.8])
   = [0.9, 0.7]"
proof -
  let ?a = "text_result ''doc1'' ''doc1_text_2'' ''JavaScript is used for web development.'' None 0.7"
  let ?b = "text_result ''doc1'' ''doc1_text_1'' ''Python is a programming language.'' None 0.8"
  have k: "query_keywords ''Python programming'' = [''python'', ''programming'']"
    by (simp add: query_keywords_def lower_def lower_char_def is_word_char_def char_of_def
        bit_Suc_0_iff)
  have l: "lower ''JavaScript is used for web development.'' = ''javascript is used for web development.''"
    "lower ''Python is a programming language.'' = ''python is a programming language.''"
    by (simp_all add: lower_def lower_char_def char_of_def bit_Suc_0_iff)
  have ma: "keyword_matches [''python'', ''programming''] ?a = 0"
    and mb: "keyword_matches [''python'', ''programming''] ?b = 2"
    by (simp_all add: keyword_matches_def text_result_def get_or_def l)
  note t = keyword_boost_formula [of "''Python programming''" "[?a, ?b]"]
  from t [of "[''python'', ''programming'']" ?a] ma
  have ca: "confidence (boost_result [''python'', ''programming''] ?a) = 0.7"
    by (simp add: text_result_def)
  from t [of "[''python'', ''programming'']" ?b] mb
  have cb: "confidence (boost_result [''python'', ''programming''] ?b) = 0.9"
    by (simp add: text_result_def)
  from ca cb show ?thesis
    by (simp add: hybrid_search_def k Let_def)
qed




section \<open>Properties of context assembly\<close>



















section \<open>Properties of segmentation\<close>












section \<open>Properties of the embedding dispatch\<close>

lemma embed_image_never_raises: "\<exists>v. embed_image env path = Inr v"
  by (auto simp: embed_image_def split: sum.splits)

lemma embed_chunk_image_never_raises:
  "chunk_type chunk = Some ''image'' \<Longrightarrow> \<exists>v. embed_chunk env chunk = Inr v"
  using embed_image_never_raises by (simp add: embed_chunk_def get_or_def)

lemma embed_text_raises:
  "text \<noteq> [] \<Longrightarrow> encode env text = Inl e \<Longrightarrow> embed_text env text = Inl e"
  by (simp add: embed_text_def)

text \<open>
  Claim C7 does not hold of the code. When the text model raises, the dispatch raises
  for a text chunk, where the claim has it return a zero vector; for an image chunk, in
  the same environment, it returns the zero vector.
\<close>

theorem embed_chunk_text_failure_raised:
  "embed_chunk failing_env (text_result ''d1'' ''d1_text_0'' ''abc'' (Some 1) 0) = Inl EmbedError
   \<and> embed_chunk failing_env (image_result ''d1'' ''d1_image_0'' ''abc'' ''d1/image_0.png'' 0)
       = Inr [0, 0, 0]"
  by (simp add: embed_chunk_def embed_text_def embed_image_def failing_env_def text_result_def
      image_result_def get_or_def zeros_def eval_nat_numeral)

end
